theory Spec2Isabelle
  imports Main
begin

section \<open>azure-collector: service construction and boot (service/service.go)\<close>

text \<open>
  The development embeds the two operations of \<^verbatim>\<open>service/service.go\<close>:
  the constructor \<^verbatim>\<open>New\<close> (with its helper \<^verbatim>\<open>buildK8sRestConfig\<close>) and the
  method \<^verbatim>\<open>Service.Boot\<close>.

  \<^item> Go pointers and interfaces that may be \<^verbatim>\<open>nil\<close> are \<open>option\<close> values.
  \<^item> A Go result pair \<^verbatim>\<open>(*T, error)\<close> is a sum \<open>error + T\<close>, \<open>Inl\<close> the error.
  \<^item> The packages that \<^verbatim>\<open>New\<close> calls (k8srestconfig, k8sclient, collector,
    statusresource, version) are not part of the file. They are the fields of an
    environment record \<open>env\<close>, one function per constructor, and every call that
    \<^verbatim>\<open>New\<close> makes to one of them is written, in program order, to a list of
    events returned beside the result. \<^verbatim>\<open>New\<close> calls each constructor at most
    once, so a function of the argument is as general as a stateful collaborator.
  \<^item> \<^verbatim>\<open>sync.Once\<close> is its \<^verbatim>\<open>done\<close> flag; a \<^verbatim>\<open>go\<close> statement appends the
    started call to the list of goroutines of the process.
\<close>

subsection \<open>External collaborators\<close>

text \<open>Objects built by other packages are opaque handles.\<close>

datatype logger = MicroLogger nat
datatype rest_Config = RestConfigHandle nat
datatype k8sclient_Clients = ClientsHandle nat
datatype collector_Set = CollectorSetHandle nat
datatype statusresource_CollectorSet = StatusCollectorSetHandle nat
datatype version_Service = VersionServiceHandle nat
datatype versionbundle_Bundle = BundleHandle nat
datatype ctx = Context nat

text \<open>An error value produced by one of the other packages.\<close>

type_synonym ext_error = string

text \<open>
  \<^verbatim>\<open>flag.Flag\<close>: the nested struct of configuration key names, one field per
  path that \<^verbatim>\<open>service.go\<close> reads (\<^verbatim>\<open>Service.Kubernetes.Address\<close> is
  \<open>Service_Kubernetes_Address\<close>, and so on).
\<close>

record flag =
  Service_Kubernetes_Address :: string
  Service_Kubernetes_InCluster :: string
  Service_Kubernetes_KubeConfig :: string
  Service_Kubernetes_KubeConfigPath :: string
  Service_Kubernetes_TLS_CAFile :: string
  Service_Kubernetes_TLS_CrtFile :: string
  Service_Kubernetes_TLS_KeyFile :: string
  Service_ControlPlaneResourceGroup :: string
  Service_Location :: string
  Service_Azure_SPTenantID :: string

text \<open>\<^verbatim>\<open>viper.Viper\<close>: the two getters that \<^verbatim>\<open>service.go\<close> uses.\<close>

record viper =
  GetString :: "string \<Rightarrow> string"
  GetBool :: "string \<Rightarrow> bool"

text \<open>\<^verbatim>\<open>k8srestconfig.Config\<close> and its \<^verbatim>\<open>ConfigTLS\<close>.\<close>

record k8srestconfig_ConfigTLS =
  CAFile :: string
  CrtFile :: string
  KeyFile :: string

record k8srestconfig_Config =
  rc_Logger :: "logger option"
  rc_Address :: string
  rc_InCluster :: bool
  rc_KubeConfig :: string
  rc_TLS :: k8srestconfig_ConfigTLS

text \<open>\<^verbatim>\<open>k8sclient.ClientsConfig\<close>.\<close>

datatype scheme_func = v1alpha1_AddToScheme | capiv1alpha3_AddToScheme

record k8sclient_ClientsConfig =
  cc_Logger :: "logger option"
  cc_SchemeBuilder :: "scheme_func list"
  cc_KubeConfigPath :: string
  cc_RestConfig :: "rest_Config option"

text \<open>\<^verbatim>\<open>collector.SetConfig\<close>.\<close>

record collector_SetConfig =
  sc_ControlPlaneResourceGroup :: string
  sc_Location :: string
  sc_Logger :: "logger option"
  sc_K8sClient :: k8sclient_Clients
  sc_GSTenantID :: string

text \<open>
  \<^verbatim>\<open>statusresource.CollectorSetConfig\<close>. The watcher is the method value
  \<^verbatim>\<open>k8sClient.G8sClient().ProviderV1alpha1().AzureConfigs(ns).Watch\<close>, kept as
  the client it is taken from and the namespace \<open>ns\<close>.
\<close>

datatype watcher = AzureConfigs_Watch k8sclient_Clients string

record statusresource_CollectorSetConfig =
  sr_Logger :: "logger option"
  sr_Watcher :: watcher

text \<open>\<^verbatim>\<open>version.Config\<close>.\<close>

record version_Config =
  vc_Description :: string
  vc_GitCommit :: string
  vc_Name :: string
  vc_Source :: string
  vc_Version :: string
  vc_VersionBundles :: "versionbundle_Bundle list"

text \<open>
  The environment: the constructors of the other packages, and the value of
  \<^verbatim>\<open>project.NewVersionBundle()\<close>. A constructor returns \<open>Inl e\<close> for
  \<^verbatim>\<open>(nil, e)\<close> and \<open>Inr x\<close> for \<^verbatim>\<open>(x, nil)\<close> with \<open>x\<close> not nil.
\<close>

record env =
  k8srestconfig_New :: "k8srestconfig_Config \<Rightarrow> ext_error + rest_Config"
  k8sclient_NewClients :: "k8sclient_ClientsConfig \<Rightarrow> ext_error + k8sclient_Clients"
  collector_NewSet :: "collector_SetConfig \<Rightarrow> ext_error + collector_Set"
  statusresource_NewCollectorSet ::
    "statusresource_CollectorSetConfig \<Rightarrow> ext_error + statusresource_CollectorSet"
  version_New :: "version_Config \<Rightarrow> ext_error + version_Service"
  project_NewVersionBundle :: versionbundle_Bundle

text \<open>The calls made to the other packages, each with its argument.\<close>

datatype event =
    Call_k8srestconfig_New k8srestconfig_Config
  | Call_k8sclient_NewClients k8sclient_ClientsConfig
  | Call_collector_NewSet collector_SetConfig
  | Call_statusresource_NewCollectorSet statusresource_CollectorSetConfig
  | Call_version_New version_Config

subsection \<open>Config, Service and errors\<close>

record Config =
  Logger :: "logger option"
  Flag :: "flag option"
  Viper :: "viper option"
  Description :: string
  GitCommit :: string
  ProjectName :: string
  Source :: string
  Version :: string

record Service =
  svc_Version :: version_Service
  bootOnce :: bool
  operatorCollector :: collector_Set
  statusResourceCollector :: statusresource_CollectorSet

text \<open>
  The errors \<^verbatim>\<open>New\<close> returns. \<open>InvalidConfig msg\<close> is
  \<^verbatim>\<open>microerror.Maskf(invalidConfigError, msg)\<close>; \<^verbatim>\<open>invalidConfigError\<close> is private
  to the package, so no other package returns it. \<open>Mask e\<close> is
  \<^verbatim>\<open>microerror.Mask(e)\<close> for an error \<open>e\<close> of another package.
  \<open>NilPointerPanic\<close> is the run-time panic of a method call through a nil pointer.
\<close>

datatype error = InvalidConfig string | Mask ext_error | NilPointerPanic

subsection \<open>buildK8sRestConfig\<close>

definition buildK8sRestConfig :: "env \<Rightarrow> Config \<Rightarrow> event list \<times> (error + rest_Config)" where
  "buildK8sRestConfig e config =
     (case Viper config of
        None \<Rightarrow> ([], Inl NilPointerPanic)
      | Some v \<Rightarrow>
     (case Flag config of
        None \<Rightarrow> ([], Inl NilPointerPanic)
      | Some f \<Rightarrow>
          let c = \<lparr> rc_Logger = Logger config,
                    rc_Address = GetString v (Service_Kubernetes_Address f),
                    rc_InCluster = GetBool v (Service_Kubernetes_InCluster f),
                    rc_KubeConfig = GetString v (Service_Kubernetes_KubeConfig f),
                    rc_TLS = \<lparr> CAFile = GetString v (Service_Kubernetes_TLS_CAFile f),
                               CrtFile = GetString v (Service_Kubernetes_TLS_CrtFile f),
                               KeyFile = GetString v (Service_Kubernetes_TLS_KeyFile f) \<rparr> \<rparr>
          in (case k8srestconfig_New e c of
                Inl err \<Rightarrow> ([Call_k8srestconfig_New c], Inl (Mask err))
              | Inr restConfig \<Rightarrow> ([Call_k8srestconfig_New c], Inr restConfig))))"

subsection \<open>New\<close>

text \<open>
  The number of connection parameters that are defined, as the three
  increments of \<^verbatim>\<open>defined\<close> compute it.
\<close>

definition defined_count :: "string \<Rightarrow> bool \<Rightarrow> string \<Rightarrow> int" where
  "defined_count address inCluster kubeConfigPath =
     (let defined = 0;
          defined = (if address \<noteq> '''' then defined + 1 else defined);
          defined = (if inCluster then defined + 1 else defined);
          defined = (if kubeConfigPath \<noteq> '''' then defined + 1 else defined)
      in defined)"

text \<open>
  The block that assembles the collector sets and the version service, once the
  client exists (lines 122 to 176). \<open>tr\<close> is the list of calls made so far.
\<close>

definition New_assemble ::
  "env \<Rightarrow> Config \<Rightarrow> flag \<Rightarrow> viper \<Rightarrow> event list \<Rightarrow> k8sclient_Clients
     \<Rightarrow> event list \<times> (error + Service)" where
  "New_assemble e config f v tr k8sClient =
     (let c1 = \<lparr> sc_ControlPlaneResourceGroup = GetString v (Service_ControlPlaneResourceGroup f),
                 sc_Location = GetString v (Service_Location f),
                 sc_Logger = Logger config,
                 sc_K8sClient = k8sClient,
                 sc_GSTenantID = GetString v (Service_Azure_SPTenantID f) \<rparr>;
          tr1 = tr @ [Call_collector_NewSet c1]
      in case collector_NewSet e c1 of
           Inl err \<Rightarrow> (tr1, Inl (Mask err))
         | Inr operatorCollector' \<Rightarrow>
     (let c2 = \<lparr> sr_Logger = Logger config,
                 sr_Watcher = AzureConfigs_Watch k8sClient '''' \<rparr>;
          tr2 = tr1 @ [Call_statusresource_NewCollectorSet c2]
      in case statusresource_NewCollectorSet e c2 of
           Inl err \<Rightarrow> (tr2, Inl (Mask err))
         | Inr statusResourceCollector' \<Rightarrow>
     (let c3 = \<lparr> vc_Description = Description config,
                 vc_GitCommit = GitCommit config,
                 vc_Name = ProjectName config,
                 vc_Source = Source config,
                 vc_Version = Version config,
                 vc_VersionBundles = [project_NewVersionBundle e] \<rparr>;
          tr3 = tr2 @ [Call_version_New c3]
      in case version_New e c3 of
           Inl err \<Rightarrow> (tr3, Inl (Mask err))
         | Inr versionService \<Rightarrow>
             (tr3, Inr \<lparr> svc_Version = versionService,
                         bootOnce = False,
                         operatorCollector = operatorCollector',
                         statusResourceCollector = statusResourceCollector' \<rparr>))))"

text \<open>
  The block that resolves the connection and builds the client, after the count
  check (lines 97 to 120), followed by the assembly.
\<close>

definition New_connect ::
  "env \<Rightarrow> Config \<Rightarrow> flag \<Rightarrow> viper \<Rightarrow> string \<Rightarrow> event list \<times> (error + Service)" where
  "New_connect e config f v kubeConfigPath =
     (case (if kubeConfigPath = ''''
            then (case buildK8sRestConfig e config of
                    (tr, Inl err) \<Rightarrow> (tr, Inl err)
                  | (tr, Inr rc) \<Rightarrow> (tr, Inr (Some rc)))
            else ([], Inr None)) of
        (tr, Inl err) \<Rightarrow> (tr, Inl err)
      | (tr, Inr restConfig) \<Rightarrow>
          let c = \<lparr> cc_Logger = Logger config,
                    cc_SchemeBuilder = [v1alpha1_AddToScheme, capiv1alpha3_AddToScheme],
                    cc_KubeConfigPath = kubeConfigPath,
                    cc_RestConfig = restConfig \<rparr>;
              tr' = tr @ [Call_k8sclient_NewClients c]
          in (case k8sclient_NewClients e c of
                Inl err \<Rightarrow> (tr', Inl (Mask err))
              | Inr k8sClient \<Rightarrow> New_assemble e config f v tr' k8sClient))"

definition New :: "env \<Rightarrow> Config \<Rightarrow> event list \<times> (error + Service)" where
  "New e config =
     (case Logger config of
        None \<Rightarrow> ([], Inl (InvalidConfig ''service.Config.Logger must not be empty''))
      | Some _ \<Rightarrow>
     (case Flag config of
        None \<Rightarrow> ([], Inl (InvalidConfig ''service.Config.Flag must not be empty''))
      | Some f \<Rightarrow>
     (case Viper config of
        None \<Rightarrow> ([], Inl (InvalidConfig ''service.Config.Viper must not be empty''))
      | Some v \<Rightarrow>
          if Description config = '''' then
            ([], Inl (InvalidConfig ''service.Config.Description must not be empty''))
          else if GitCommit config = '''' then
            ([], Inl (InvalidConfig ''service.Config.GitCommit must not be empty''))
          else if ProjectName config = '''' then
            ([], Inl (InvalidConfig ''service.Config.ProjectName must not be empty''))
          else if Source config = '''' then
            ([], Inl (InvalidConfig ''service.Config.Source must not be empty''))
          else
            let address = GetString v (Service_Kubernetes_Address f);
                inCluster = GetBool v (Service_Kubernetes_InCluster f);
                kubeConfigPath = GetString v (Service_Kubernetes_KubeConfigPath f);
                defined = defined_count address inCluster kubeConfigPath
            in if defined = 0 then
                 ([], Inl (InvalidConfig
                     ''address or inCluster or kubeConfigPath must be defined''))
               else if defined > 1 then
                 ([], Inl (InvalidConfig
                     ''address and inCluster and kubeConfigPath must not be defined at the same time''))
               else New_connect e config f v kubeConfigPath)))"

subsection \<open>Boot\<close>

text \<open>
  A started goroutine: the call it runs. The process state that \<^verbatim>\<open>Boot\<close>
  touches is the service (through its pointer receiver) and the goroutines
  started so far.
\<close>

datatype goroutine =
    Go_operatorCollector_Boot collector_Set ctx
  | Go_statusResourceCollector_Boot statusresource_CollectorSet ctx

text \<open>
  \<^verbatim>\<open>s.bootOnce.Do(f)\<close> runs \<open>f\<close> and sets the flag when the flag is clear, and
  does nothing otherwise. \<^verbatim>\<open>Boot\<close> has no result: the function returns the
  state only.
\<close>

definition Boot :: "ctx \<Rightarrow> Service \<times> goroutine list \<Rightarrow> Service \<times> goroutine list" where
  "Boot c st =
     (case st of (s, gs) \<Rightarrow>
        if bootOnce s then (s, gs)
        else (s\<lparr>bootOnce := True\<rparr>,
              gs @ [Go_operatorCollector_Boot (operatorCollector s) c,
                    Go_statusResourceCollector_Boot (statusResourceCollector s) c]))"

text \<open>A sequence of calls to \<^verbatim>\<open>Boot\<close>, one per context, in the order they take effect.\<close>

fun Boots :: "ctx list \<Rightarrow> Service \<times> goroutine list \<Rightarrow> Service \<times> goroutine list" where
  "Boots [] st = st"
| "Boots (c # cs) st = Boots cs (Boot c st)"

subsection \<open>Concrete configurations and environments\<close>

text \<open>
  A flag structure with the key names of the command line, a viper holding
  explicit settings (a missing key reads as the zero value, as viper does), and
  configurations and environments built from them. The example of the
  specification is \<open>config_of viper_inCluster\<close> in \<open>env_ok\<close>.
\<close>

definition flag0 :: flag where
  "flag0 = \<lparr> Service_Kubernetes_Address = ''service.kubernetes.address'',
             Service_Kubernetes_InCluster = ''service.kubernetes.inCluster'',
             Service_Kubernetes_KubeConfig = ''service.kubernetes.kubeConfig'',
             Service_Kubernetes_KubeConfigPath = ''service.kubernetes.kubeConfigPath'',
             Service_Kubernetes_TLS_CAFile = ''service.kubernetes.tls.caFile'',
             Service_Kubernetes_TLS_CrtFile = ''service.kubernetes.tls.crtFile'',
             Service_Kubernetes_TLS_KeyFile = ''service.kubernetes.tls.keyFile'',
             Service_ControlPlaneResourceGroup = ''service.controlPlaneResourceGroup'',
             Service_Location = ''service.location'',
             Service_Azure_SPTenantID = ''service.azure.spTenantID'' \<rparr>"

definition viper_of :: "(string \<times> string) list \<Rightarrow> (string \<times> bool) list \<Rightarrow> viper" where
  "viper_of ss bs =
     \<lparr> GetString = (\<lambda>k. case map_of ss k of None \<Rightarrow> '''' | Some s \<Rightarrow> s),
       GetBool = (\<lambda>k. case map_of bs k of None \<Rightarrow> False | Some b \<Rightarrow> b) \<rparr>"

definition provider_settings :: "(string \<times> string) list" where
  "provider_settings =
     [(''service.controlPlaneResourceGroup'', ''rg1''),
      (''service.location'', ''westeurope''),
      (''service.azure.spTenantID'', ''t1'')]"

definition viper_none :: viper where
  "viper_none = viper_of provider_settings []"

definition viper_inCluster :: viper where
  "viper_inCluster = viper_of provider_settings [(''service.kubernetes.inCluster'', True)]"

definition viper_kubeConfigPath :: viper where
  "viper_kubeConfigPath =
     viper_of ((''service.kubernetes.kubeConfigPath'', ''/home/u/.kube/config'') # provider_settings) []"

definition viper_address_and_path :: viper where
  "viper_address_and_path =
     viper_of ((''service.kubernetes.address'', ''https://10.0.0.1'') #
               (''service.kubernetes.kubeConfigPath'', ''/home/u/.kube/config'') #
               provider_settings) []"

definition config_of :: "viper \<Rightarrow> Config" where
  "config_of v =
     \<lparr> Logger = Some (MicroLogger 0), Flag = Some flag0, Viper = Some v,
       Description = ''d'', GitCommit = ''abc123'', ProjectName = ''collector'',
       Source = ''src'', Version = ''1.0'' \<rparr>"

definition env_ok :: env where
  "env_ok =
     \<lparr> k8srestconfig_New = (\<lambda>c. Inr (RestConfigHandle 1)),
       k8sclient_NewClients = (\<lambda>c. Inr (ClientsHandle 2)),
       collector_NewSet = (\<lambda>c. Inr (CollectorSetHandle 3)),
       statusresource_NewCollectorSet = (\<lambda>c. Inr (StatusCollectorSetHandle 4)),
       version_New = (\<lambda>c. Inr (VersionServiceHandle 5)),
       project_NewVersionBundle = BundleHandle 6 \<rparr>"

text \<open>Environments in which one constructor fails.\<close>

definition env_restconfig_fails :: env where
  "env_restconfig_fails =
     env_ok\<lparr>k8srestconfig_New := (\<lambda>c. Inl ''in-cluster configuration not available'')\<rparr>"

definition env_set_fails :: env where
  "env_set_fails = env_ok\<lparr>collector_NewSet := (\<lambda>c. Inl ''collector set rejected'')\<rparr>"

definition env_status_fails :: env where
  "env_status_fails =
     env_ok\<lparr>statusresource_NewCollectorSet := (\<lambda>c. Inl ''status collector set rejected'')\<rparr>"

section \<open>Auxiliary facts\<close>

subsection \<open>The validation prefix of New\<close>

text \<open>The counter equals the number of connection parameters that are defined.\<close>

lemma defined_count_filter:
  "defined_count a b k = int (length (filter id [a \<noteq> '''', b, k \<noteq> '''']))"
  by (simp add: defined_count_def)

text \<open>Once the seven checks on the handles and identity fields pass, the count decides.\<close>

lemma New_checked:
  assumes "Logger config = Some l" "Flag config = Some f" "Viper config = Some v"
    "Description config \<noteq> ''''" "GitCommit config \<noteq> ''''"
    "ProjectName config \<noteq> ''''" "Source config \<noteq> ''''"
  shows "New e config =
     (let kubeConfigPath = GetString v (Service_Kubernetes_KubeConfigPath f);
          defined = defined_count (GetString v (Service_Kubernetes_Address f))
                      (GetBool v (Service_Kubernetes_InCluster f)) kubeConfigPath
      in if defined = 0 then
           ([], Inl (InvalidConfig ''address or inCluster or kubeConfigPath must be defined''))
         else if defined > 1 then
           ([], Inl (InvalidConfig
              ''address and inCluster and kubeConfigPath must not be defined at the same time''))
         else New_connect e config f v kubeConfigPath)"
  using assms by (simp add: New_def Let_def)

lemma New_unchecked:
  "Logger config = None \<or> Flag config = None \<or> Viper config = None \<or>
   Description config = '''' \<or> GitCommit config = '''' \<or>
   ProjectName config = '''' \<or> Source config = '''' \<Longrightarrow>
   \<exists>msg. New e config = ([], Inl (InvalidConfig msg))"
  by (auto simp add: New_def split: option.splits)

text \<open>
  Either \<^verbatim>\<open>New\<close> stops with an invalid-configuration error before any call to
  another package, or every check passed, one parameter is defined and the
  connection block runs.
\<close>

lemma New_invalid_or_connect:
  "(\<exists>msg. New e config = ([], Inl (InvalidConfig msg))) \<or>
   (\<exists>l f v. Logger config = Some l \<and> Flag config = Some f \<and> Viper config = Some v \<and>
      Description config \<noteq> '''' \<and> GitCommit config \<noteq> '''' \<and>
      ProjectName config \<noteq> '''' \<and> Source config \<noteq> '''' \<and>
      defined_count (GetString v (Service_Kubernetes_Address f))
                    (GetBool v (Service_Kubernetes_InCluster f))
                    (GetString v (Service_Kubernetes_KubeConfigPath f)) = 1 \<and>
      New e config = New_connect e config f v (GetString v (Service_Kubernetes_KubeConfigPath f)))"
proof (cases "Logger config = None \<or> Flag config = None \<or> Viper config = None \<or>
   Description config = '''' \<or> GitCommit config = '''' \<or>
   ProjectName config = '''' \<or> Source config = ''''")
  case True
  then show ?thesis using New_unchecked by blast
next
  case False
  then obtain l f v where h: "Logger config = Some l" "Flag config = Some f" "Viper config = Some v"
    "Description config \<noteq> ''''" "GitCommit config \<noteq> ''''"
    "ProjectName config \<noteq> ''''" "Source config \<noteq> ''''"
    by auto
  let ?d = "defined_count (GetString v (Service_Kubernetes_Address f))
                    (GetBool v (Service_Kubernetes_InCluster f))
                    (GetString v (Service_Kubernetes_KubeConfigPath f))"
  consider "?d = 0" | "?d > 1" | "?d = 1"
    using defined_count_filter[of "GetString v (Service_Kubernetes_Address f)"
        "GetBool v (Service_Kubernetes_InCluster f)"
        "GetString v (Service_Kubernetes_KubeConfigPath f)"] by linarith
  then show ?thesis
  proof cases
    case 1
    then show ?thesis using New_checked[OF h, of e] by (simp add: Let_def)
  next
    case 2
    then show ?thesis using New_checked[OF h, of e] by (simp add: Let_def)
  next
    case 3
    then have "New e config = New_connect e config f v (GetString v (Service_Kubernetes_KubeConfigPath f))"
      using New_checked[OF h, of e] by (simp add: Let_def)
    with h 3 show ?thesis by blast
  qed
qed

subsection \<open>Calls made by the connection and assembly blocks\<close>

lemma buildK8sRestConfig_trace:
  "\<forall>ev \<in> set (fst (buildK8sRestConfig e config)). \<exists>c. ev = Call_k8srestconfig_New c"
  by (simp add: buildK8sRestConfig_def Let_def split: option.splits sum.splits)

lemma buildK8sRestConfig_no_clients:
  "Call_k8sclient_NewClients c \<notin> set (fst (buildK8sRestConfig e config))"
  by (simp add: buildK8sRestConfig_def Let_def split: option.splits sum.splits)

lemma New_assemble_trace:
  "\<exists>tr'. fst (New_assemble e config f v tr k8s) = tr @ tr' \<and>
         (\<forall>c. Call_k8srestconfig_New c \<notin> set tr') \<and>
         (\<forall>c. Call_k8sclient_NewClients c \<notin> set tr')"
  by (simp add: New_assemble_def Let_def split: sum.splits)

lemma New_connect_path:
  "kubeConfigPath \<noteq> '''' \<Longrightarrow>
   New_connect e config f v kubeConfigPath =
     (let c = \<lparr> cc_Logger = Logger config,
                cc_SchemeBuilder = [v1alpha1_AddToScheme, capiv1alpha3_AddToScheme],
                cc_KubeConfigPath = kubeConfigPath,
                cc_RestConfig = None \<rparr>
      in case k8sclient_NewClients e c of
           Inl err \<Rightarrow> ([Call_k8sclient_NewClients c], Inl (Mask err))
         | Inr k8sClient \<Rightarrow> New_assemble e config f v [Call_k8sclient_NewClients c] k8sClient)"
  by (simp add: New_connect_def Let_def)

lemma New_connect_nopath:
  "buildK8sRestConfig e config = (tr, r) \<Longrightarrow>
   New_connect e config f v '''' =
     (case r of
        Inl err \<Rightarrow> (tr, Inl err)
      | Inr rc \<Rightarrow>
         (let c = \<lparr> cc_Logger = Logger config,
                cc_SchemeBuilder = [v1alpha1_AddToScheme, capiv1alpha3_AddToScheme],
                cc_KubeConfigPath = '''',
                cc_RestConfig = Some rc \<rparr>
          in case k8sclient_NewClients e c of
           Inl err \<Rightarrow> (tr @ [Call_k8sclient_NewClients c], Inl (Mask err))
         | Inr k8sClient \<Rightarrow> New_assemble e config f v (tr @ [Call_k8sclient_NewClients c]) k8sClient))"
  by (simp add: New_connect_def Let_def split: sum.splits)

lemma New_connect_path_trace:
  assumes "kubeConfigPath \<noteq> ''''"
  shows "\<exists>tr'. fst (New_connect e config f v kubeConfigPath) =
            Call_k8sclient_NewClients
              \<lparr> cc_Logger = Logger config,
                cc_SchemeBuilder = [v1alpha1_AddToScheme, capiv1alpha3_AddToScheme],
                cc_KubeConfigPath = kubeConfigPath,
                cc_RestConfig = None \<rparr> # tr' \<and>
            (\<forall>c. Call_k8srestconfig_New c \<notin> set tr') \<and>
            (\<forall>c. Call_k8sclient_NewClients c \<notin> set tr')"
proof -
  let ?c = "\<lparr> cc_Logger = Logger config,
                cc_SchemeBuilder = [v1alpha1_AddToScheme, capiv1alpha3_AddToScheme],
                cc_KubeConfigPath = kubeConfigPath,
                cc_RestConfig = None \<rparr>"
  show ?thesis
  proof (cases "k8sclient_NewClients e ?c")
    case (Inl err)
    then show ?thesis using assms by (simp add: New_connect_path)
  next
    case (Inr k8s)
    then show ?thesis
      using assms New_assemble_trace[of e config f v "[Call_k8sclient_NewClients ?c]" k8s]
      by (simp add: New_connect_path)
  qed
qed

lemma New_connect_nopath_clients:
  assumes "Call_k8sclient_NewClients c \<in> set (fst (New_connect e config f v ''''))"
  shows "cc_KubeConfigPath c = ''''"
proof -
  obtain tr r where b: "buildK8sRestConfig e config = (tr, r)" by (cases "buildK8sRestConfig e config")
  have nc: "Call_k8sclient_NewClients c \<notin> set tr"
    using buildK8sRestConfig_no_clients[of c e config] b by simp
  show ?thesis
  proof (cases r)
    case (Inl err)
    then show ?thesis using assms nc by (simp add: New_connect_nopath[OF b])
  next
    case (Inr rc)
    let ?c = "\<lparr> cc_Logger = Logger config,
                cc_SchemeBuilder = [v1alpha1_AddToScheme, capiv1alpha3_AddToScheme],
                cc_KubeConfigPath = '''',
                cc_RestConfig = Some rc \<rparr>"
    show ?thesis
    proof (cases "k8sclient_NewClients e ?c")
      case (Inl err)
      then show ?thesis using assms nc Inr by (auto simp add: New_connect_nopath[OF b])
    next
      case (Inr k8s)
      obtain tr' where "fst (New_assemble e config f v (tr @ [Call_k8sclient_NewClients ?c]) k8s)
            = (tr @ [Call_k8sclient_NewClients ?c]) @ tr'" "\<forall>c. Call_k8sclient_NewClients c \<notin> set tr'"
        using New_assemble_trace[of e config f v "tr @ [Call_k8sclient_NewClients ?c]" k8s] by blast
      then show ?thesis using assms nc Inr \<open>r = Inr rc\<close> by (auto simp add: New_connect_nopath[OF b])
    qed
  qed
qed

lemma New_connect_clients:
  assumes "Call_k8sclient_NewClients c \<in> set (fst (New_connect e config f v kubeConfigPath))"
  shows "cc_KubeConfigPath c = kubeConfigPath \<and>
         (kubeConfigPath \<noteq> '''' \<longrightarrow> cc_RestConfig c = None)"
proof (cases "kubeConfigPath = ''''")
  case True
  then show ?thesis using assms New_connect_nopath_clients by simp
next
  case False
  then show ?thesis using assms New_connect_path_trace[OF False, of e config f v] by auto
qed

subsection \<open>Results of the assembly\<close>

lemma New_assemble_result:
  assumes "New_assemble e config f v tr0 k8s = (tr, res)"
    "\<forall>c. Call_collector_NewSet c \<notin> set tr0"
    "\<forall>c. Call_statusresource_NewCollectorSet c \<notin> set tr0"
  shows "(\<forall>c err. Call_collector_NewSet c \<in> set tr \<longrightarrow> collector_NewSet e c = Inl err
             \<longrightarrow> res = Inl (Mask err)) \<and>
         (\<forall>c err. Call_statusresource_NewCollectorSet c \<in> set tr \<longrightarrow>
             statusresource_NewCollectorSet e c = Inl err \<longrightarrow> res = Inl (Mask err)) \<and>
         (\<forall>s. res = Inr s \<longrightarrow> bootOnce s = False \<and>
            (\<exists>c1 c2. Call_collector_NewSet c1 \<in> set tr \<and>
                     collector_NewSet e c1 = Inr (operatorCollector s) \<and>
                     Call_statusresource_NewCollectorSet c2 \<in> set tr \<and>
                     statusresource_NewCollectorSet e c2 = Inr (statusResourceCollector s)))"
  using assms
  by (auto simp add: New_assemble_def Let_def split: sum.splits)

lemma New_connect_result:
  assumes "New_connect e config f v p = (tr, res)"
  shows "(\<forall>c err. Call_collector_NewSet c \<in> set tr \<longrightarrow> collector_NewSet e c = Inl err
             \<longrightarrow> res = Inl (Mask err)) \<and>
         (\<forall>c err. Call_statusresource_NewCollectorSet c \<in> set tr \<longrightarrow>
             statusresource_NewCollectorSet e c = Inl err \<longrightarrow> res = Inl (Mask err)) \<and>
         (\<forall>s. res = Inr s \<longrightarrow> bootOnce s = False \<and>
            (\<exists>c1 c2. Call_collector_NewSet c1 \<in> set tr \<and>
                     collector_NewSet e c1 = Inr (operatorCollector s) \<and>
                     Call_statusresource_NewCollectorSet c2 \<in> set tr \<and>
                     statusresource_NewCollectorSet e c2 = Inr (statusResourceCollector s)))"
proof (cases "p = ''''")
  case False
  let ?c = "\<lparr> cc_Logger = Logger config,
                cc_SchemeBuilder = [v1alpha1_AddToScheme, capiv1alpha3_AddToScheme],
                cc_KubeConfigPath = p,
                cc_RestConfig = None \<rparr>"
  show ?thesis
  proof (cases "k8sclient_NewClients e ?c")
    case (Inl err)
    then show ?thesis using assms False by (auto simp add: New_connect_path)
  next
    case (Inr k8s)
    then have "New_assemble e config f v [Call_k8sclient_NewClients ?c] k8s = (tr, res)"
      using assms False by (simp add: New_connect_path)
    then show ?thesis by (rule New_assemble_result) simp_all
  qed
next
  case True
  obtain tr0 r0 where b: "buildK8sRestConfig e config = (tr0, r0)"
    by (cases "buildK8sRestConfig e config")
  have t0: "\<forall>c. Call_collector_NewSet c \<notin> set tr0"
       "\<forall>c. Call_statusresource_NewCollectorSet c \<notin> set tr0"
    using buildK8sRestConfig_trace[of e config] b by auto
  show ?thesis
  proof (cases r0)
    case (Inl err)
    then show ?thesis using assms True t0 by (auto simp add: New_connect_nopath[OF b])
  next
    case (Inr rc)
    let ?c = "\<lparr> cc_Logger = Logger config,
                cc_SchemeBuilder = [v1alpha1_AddToScheme, capiv1alpha3_AddToScheme],
                cc_KubeConfigPath = '''',
                cc_RestConfig = Some rc \<rparr>"
    show ?thesis
    proof (cases "k8sclient_NewClients e ?c")
      case (Inl err)
      then show ?thesis using assms True t0 Inr by (auto simp add: New_connect_nopath[OF b])
    next
      case r: (Inr k8s)
      then have a: "New_assemble e config f v (tr0 @ [Call_k8sclient_NewClients ?c]) k8s = (tr, res)"
        using assms True Inr by (simp add: New_connect_nopath[OF b])
      show ?thesis using t0 by (intro New_assemble_result[OF a]) simp_all
    qed
  qed
qed

lemma New_result:
  assumes "New e config = (tr, res)"
  shows "(\<forall>c err. Call_collector_NewSet c \<in> set tr \<longrightarrow> collector_NewSet e c = Inl err
             \<longrightarrow> res = Inl (Mask err)) \<and>
         (\<forall>c err. Call_statusresource_NewCollectorSet c \<in> set tr \<longrightarrow>
             statusresource_NewCollectorSet e c = Inl err \<longrightarrow> res = Inl (Mask err)) \<and>
         (\<forall>s. res = Inr s \<longrightarrow> bootOnce s = False \<and>
            (\<exists>c1 c2. Call_collector_NewSet c1 \<in> set tr \<and>
                     collector_NewSet e c1 = Inr (operatorCollector s) \<and>
                     Call_statusresource_NewCollectorSet c2 \<in> set tr \<and>
                     statusresource_NewCollectorSet e c2 = Inr (statusResourceCollector s)))"
  using New_invalid_or_connect[of e config]
proof (elim disjE exE conjE)
  fix msg assume "New e config = ([], Inl (InvalidConfig msg))"
  then show ?thesis using assms by auto
next
  fix l f v
  assume "New e config = New_connect e config f v (GetString v (Service_Kubernetes_KubeConfigPath f))"
  then have "New_connect e config f v (GetString v (Service_Kubernetes_KubeConfigPath f)) = (tr, res)"
    using assms by simp
  then show ?thesis by (rule New_connect_result)
qed

subsection \<open>The one-time guard\<close>

lemma Boot_first:
  "\<not> bootOnce s \<Longrightarrow>
   Boot c (s, gs) =
     (s\<lparr>bootOnce := True\<rparr>,
      gs @ [Go_operatorCollector_Boot (operatorCollector s) c,
            Go_statusResourceCollector_Boot (statusResourceCollector s) c])"
  by (simp add: Boot_def)

lemma Boot_done: "bootOnce s \<Longrightarrow> Boot c (s, gs) = (s, gs)"
  by (simp add: Boot_def)

lemma Boots_done: "bootOnce s \<Longrightarrow> Boots cs (s, gs) = (s, gs)"
  by (induction cs) (simp_all add: Boot_done)

subsection \<open>Unfolding sets for concrete evaluation\<close>

lemmas New_defs =
  New_def New_connect_def New_assemble_def buildK8sRestConfig_def defined_count_def Let_def

lemmas fixture_defs =
  flag0_def viper_of_def provider_settings_def viper_none_def viper_inCluster_def
  viper_kubeConfigPath_def viper_address_and_path_def config_of_def env_ok_def
  env_restconfig_fails_def env_set_fails_def env_status_fails_def

section \<open>Properties of construction\<close>

text \<open>
  C1. When the flag and viper handles are present and none of the three
  connection parameters is defined (the address is empty, the in-cluster flag
  is false, the kubeconfig path is empty), \<^verbatim>\<open>New\<close> returns an
  invalid-configuration error and no service, having called no other package.
  When the earlier checks pass, the error is the one of line 91.
\<close>

theorem New_no_connection_parameter:
  assumes "Flag config = Some f" and "Viper config = Some v"
    and "GetString v (Service_Kubernetes_Address f) = ''''"
    and "\<not> GetBool v (Service_Kubernetes_InCluster f)"
    and "GetString v (Service_Kubernetes_KubeConfigPath f) = ''''"
  shows "(\<exists>msg. New e config = ([], Inl (InvalidConfig msg))) \<and>
         (Logger config \<noteq> None \<and> Description config \<noteq> '''' \<and> GitCommit config \<noteq> '''' \<and>
          ProjectName config \<noteq> '''' \<and> Source config \<noteq> '''' \<longrightarrow>
          New e config =
            ([], Inl (InvalidConfig ''address or inCluster or kubeConfigPath must be defined'')))"
  using assms by (simp add: New_def defined_count_def split: option.splits)

theorem New_no_connection_parameter_witness:
  "Flag (config_of viper_none) = Some flag0 \<and> Viper (config_of viper_none) = Some viper_none \<and>
   GetString viper_none (Service_Kubernetes_Address flag0) = '''' \<and>
   \<not> GetBool viper_none (Service_Kubernetes_InCluster flag0) \<and>
   GetString viper_none (Service_Kubernetes_KubeConfigPath flag0) = '''' \<and>
   New env_ok (config_of viper_none) =
     ([], Inl (InvalidConfig ''address or inCluster or kubeConfigPath must be defined''))"
proof -
  have h: "Flag (config_of viper_none) = Some flag0" "Viper (config_of viper_none) = Some viper_none"
    "GetString viper_none (Service_Kubernetes_Address flag0) = ''''"
    "\<not> GetBool viper_none (Service_Kubernetes_InCluster flag0)"
    "GetString viper_none (Service_Kubernetes_KubeConfigPath flag0) = ''''"
    by (simp_all add: fixture_defs)
  have "Logger (config_of viper_none) \<noteq> None \<and> Description (config_of viper_none) \<noteq> '''' \<and>
        GitCommit (config_of viper_none) \<noteq> '''' \<and> ProjectName (config_of viper_none) \<noteq> '''' \<and>
        Source (config_of viper_none) \<noteq> ''''"
    by (simp add: config_of_def)
  with New_no_connection_parameter[OF h, of env_ok] h show ?thesis by blast
qed

text \<open>
  C2. When the flag and viper handles are present and two or more of the three
  connection parameters are defined, \<^verbatim>\<open>New\<close> returns an invalid-configuration
  error and no service, having called no other package. When the earlier
  checks pass, the error is the one of line 94.
\<close>

theorem New_several_connection_parameters:
  assumes "Flag config = Some f" and "Viper config = Some v"
    and "2 \<le> length (filter id [GetString v (Service_Kubernetes_Address f) \<noteq> '''',
                                 GetBool v (Service_Kubernetes_InCluster f),
                                 GetString v (Service_Kubernetes_KubeConfigPath f) \<noteq> ''''])"
  shows "(\<exists>msg. New e config = ([], Inl (InvalidConfig msg))) \<and>
         (Logger config \<noteq> None \<and> Description config \<noteq> '''' \<and> GitCommit config \<noteq> '''' \<and>
          ProjectName config \<noteq> '''' \<and> Source config \<noteq> '''' \<longrightarrow>
          New e config =
            ([], Inl (InvalidConfig
               ''address and inCluster and kubeConfigPath must not be defined at the same time'')))"
proof -
  let ?d = "defined_count (GetString v (Service_Kubernetes_Address f))
              (GetBool v (Service_Kubernetes_InCluster f))
              (GetString v (Service_Kubernetes_KubeConfigPath f))"
  have d: "?d > 1" using assms(3) unfolding defined_count_filter by linarith
  show ?thesis
  proof (cases "Logger config = None \<or> Description config = '''' \<or> GitCommit config = '''' \<or>
      ProjectName config = '''' \<or> Source config = ''''")
    case True
    then have "\<exists>msg. New e config = ([], Inl (InvalidConfig msg))"
      by (intro New_unchecked) auto
    then show ?thesis using True by auto
  next
    case False
    then obtain l where "Logger config = Some l" by auto
    then show ?thesis using False assms(1,2) d New_checked[of config l f v e]
      by (simp add: Let_def)
  qed
qed

theorem New_several_connection_parameters_witness:
  "2 \<le> length (filter id
          [GetString viper_address_and_path (Service_Kubernetes_Address flag0) \<noteq> '''',
           GetBool viper_address_and_path (Service_Kubernetes_InCluster flag0),
           GetString viper_address_and_path (Service_Kubernetes_KubeConfigPath flag0) \<noteq> '''']) \<and>
   New env_ok (config_of viper_address_and_path) =
     ([], Inl (InvalidConfig
        ''address and inCluster and kubeConfigPath must not be defined at the same time''))"
proof -
  have h: "Flag (config_of viper_address_and_path) = Some flag0"
    "Viper (config_of viper_address_and_path) = Some viper_address_and_path"
    "2 \<le> length (filter id
          [GetString viper_address_and_path (Service_Kubernetes_Address flag0) \<noteq> '''',
           GetBool viper_address_and_path (Service_Kubernetes_InCluster flag0),
           GetString viper_address_and_path (Service_Kubernetes_KubeConfigPath flag0) \<noteq> ''''])"
    by (simp_all add: fixture_defs)
  have "Logger (config_of viper_address_and_path) \<noteq> None \<and>
        Description (config_of viper_address_and_path) \<noteq> '''' \<and>
        GitCommit (config_of viper_address_and_path) \<noteq> '''' \<and>
        ProjectName (config_of viper_address_and_path) \<noteq> '''' \<and>
        Source (config_of viper_address_and_path) \<noteq> ''''"
    by (simp add: config_of_def)
  with New_several_connection_parameters[OF h, of env_ok] h(3) show ?thesis by blast
qed




text \<open>
  C4. When the kubeconfig path is the only connection parameter defined, no
  call to \<^verbatim>\<open>k8srestconfig.New\<close> is made, every call to the client factory
  carries the path unchanged and a nil REST configuration, and when the earlier
  checks pass the client factory is the first package called, with exactly that
  configuration. For every configuration, no call to the client factory has
  both the kubeconfig path and the REST configuration populated.
\<close>

theorem New_kubeconfig_path_only:
  "(Flag config = Some f \<and> Viper config = Some v \<and>
    GetString v (Service_Kubernetes_Address f) = '''' \<and>
    \<not> GetBool v (Service_Kubernetes_InCluster f) \<and>
    GetString v (Service_Kubernetes_KubeConfigPath f) \<noteq> '''' \<longrightarrow>
      (\<forall>c. Call_k8srestconfig_New c \<notin> set (fst (New e config))) \<and>
      (\<forall>c. Call_k8sclient_NewClients c \<in> set (fst (New e config)) \<longrightarrow>
           cc_KubeConfigPath c = GetString v (Service_Kubernetes_KubeConfigPath f) \<and>
           cc_RestConfig c = None) \<and>
      (Logger config \<noteq> None \<and> Description config \<noteq> '''' \<and> GitCommit config \<noteq> '''' \<and>
       ProjectName config \<noteq> '''' \<and> Source config \<noteq> '''' \<longrightarrow>
         (\<exists>tr. fst (New e config) =
            Call_k8sclient_NewClients
              \<lparr> cc_Logger = Logger config,
                cc_SchemeBuilder = [v1alpha1_AddToScheme, capiv1alpha3_AddToScheme],
                cc_KubeConfigPath = GetString v (Service_Kubernetes_KubeConfigPath f),
                cc_RestConfig = None \<rparr> # tr))) \<and>
   (\<forall>c. Call_k8sclient_NewClients c \<in> set (fst (New e config)) \<longrightarrow>
        \<not> (cc_KubeConfigPath c \<noteq> '''' \<and> cc_RestConfig c \<noteq> None))"
proof (intro conjI impI allI)
  fix c
  assume m: "Call_k8sclient_NewClients c \<in> set (fst (New e config))"
  then obtain f' v' where "New e config =
      New_connect e config f' v' (GetString v' (Service_Kubernetes_KubeConfigPath f'))"
    using New_invalid_or_connect[of e config] by auto
  with m show "\<not> (cc_KubeConfigPath c \<noteq> '''' \<and> cc_RestConfig c \<noteq> None)"
    using New_connect_clients[of c e config f' v'] by auto
next
  fix c
  assume a: "Flag config = Some f \<and> Viper config = Some v \<and>
    GetString v (Service_Kubernetes_Address f) = '''' \<and>
    \<not> GetBool v (Service_Kubernetes_InCluster f) \<and>
    GetString v (Service_Kubernetes_KubeConfigPath f) \<noteq> ''''"
  show "Call_k8srestconfig_New c \<notin> set (fst (New e config))"
    using New_invalid_or_connect[of e config] a
      New_connect_path_trace[of "GetString v (Service_Kubernetes_KubeConfigPath f)" e config f v]
    by auto
next
  fix c
  assume a: "Flag config = Some f \<and> Viper config = Some v \<and>
    GetString v (Service_Kubernetes_Address f) = '''' \<and>
    \<not> GetBool v (Service_Kubernetes_InCluster f) \<and>
    GetString v (Service_Kubernetes_KubeConfigPath f) \<noteq> ''''"
    and m: "Call_k8sclient_NewClients c \<in> set (fst (New e config))"
  from m have "New e config =
      New_connect e config f v (GetString v (Service_Kubernetes_KubeConfigPath f))"
    using New_invalid_or_connect[of e config] a by auto
  with m a show "cc_KubeConfigPath c = GetString v (Service_Kubernetes_KubeConfigPath f)"
    and "cc_RestConfig c = None"
    using New_connect_clients[of c e config f v] by auto
next
  assume a: "Flag config = Some f \<and> Viper config = Some v \<and>
    GetString v (Service_Kubernetes_Address f) = '''' \<and>
    \<not> GetBool v (Service_Kubernetes_InCluster f) \<and>
    GetString v (Service_Kubernetes_KubeConfigPath f) \<noteq> ''''"
    and b: "Logger config \<noteq> None \<and> Description config \<noteq> '''' \<and> GitCommit config \<noteq> '''' \<and>
       ProjectName config \<noteq> '''' \<and> Source config \<noteq> ''''"
  from b obtain l where l: "Logger config = Some l" by auto
  have "New e config =
      New_connect e config f v (GetString v (Service_Kubernetes_KubeConfigPath f))"
    using a b New_checked[of config l f v e] l by (simp add: Let_def defined_count_def)
  then show "\<exists>tr. fst (New e config) =
            Call_k8sclient_NewClients
              \<lparr> cc_Logger = Logger config,
                cc_SchemeBuilder = [v1alpha1_AddToScheme, capiv1alpha3_AddToScheme],
                cc_KubeConfigPath = GetString v (Service_Kubernetes_KubeConfigPath f),
                cc_RestConfig = None \<rparr> # tr"
    using a New_connect_path_trace[of "GetString v (Service_Kubernetes_KubeConfigPath f)" e config f v]
    by auto
qed

theorem New_kubeconfig_path_only_witness:
  "GetString viper_kubeConfigPath (Service_Kubernetes_Address flag0) = '''' \<and>
   \<not> GetBool viper_kubeConfigPath (Service_Kubernetes_InCluster flag0) \<and>
   GetString viper_kubeConfigPath (Service_Kubernetes_KubeConfigPath flag0) = ''/home/u/.kube/config'' \<and>
   (\<forall>c. Call_k8srestconfig_New c \<notin> set (fst (New env_ok (config_of viper_kubeConfigPath)))) \<and>
   (\<exists>tr. fst (New env_ok (config_of viper_kubeConfigPath)) =
      Call_k8sclient_NewClients
        \<lparr> cc_Logger = Some (MicroLogger 0),
          cc_SchemeBuilder = [v1alpha1_AddToScheme, capiv1alpha3_AddToScheme],
          cc_KubeConfigPath = ''/home/u/.kube/config'',
          cc_RestConfig = None \<rparr> # tr)"
proof -
  have h: "Flag (config_of viper_kubeConfigPath) = Some flag0 \<and>
    Viper (config_of viper_kubeConfigPath) = Some viper_kubeConfigPath \<and>
    GetString viper_kubeConfigPath (Service_Kubernetes_Address flag0) = '''' \<and>
    \<not> GetBool viper_kubeConfigPath (Service_Kubernetes_InCluster flag0) \<and>
    GetString viper_kubeConfigPath (Service_Kubernetes_KubeConfigPath flag0) \<noteq> ''''"
    by (simp add: fixture_defs)
  have p: "GetString viper_kubeConfigPath (Service_Kubernetes_KubeConfigPath flag0) =
      ''/home/u/.kube/config''"
    by (simp add: fixture_defs)
  have i: "Logger (config_of viper_kubeConfigPath) = Some (MicroLogger 0) \<and>
    Description (config_of viper_kubeConfigPath) \<noteq> '''' \<and>
    GitCommit (config_of viper_kubeConfigPath) \<noteq> '''' \<and>
    ProjectName (config_of viper_kubeConfigPath) \<noteq> '''' \<and>
    Source (config_of viper_kubeConfigPath) \<noteq> ''''"
    by (simp add: config_of_def)
  show ?thesis
    using New_kubeconfig_path_only
            [of "config_of viper_kubeConfigPath" flag0 viper_kubeConfigPath env_ok] h i
    unfolding p by simp
qed

text \<open>
  C6. Assembly is all or nothing. If \<^verbatim>\<open>collector.NewSet\<close> or
  \<^verbatim>\<open>statusresource.NewCollectorSet\<close> is called and fails, \<^verbatim>\<open>New\<close> returns that
  error, masked, and no service. Every service that \<^verbatim>\<open>New\<close> returns holds the
  results of a successful call to each of the two constructors.
\<close>

theorem New_all_or_nothing:
  "(\<forall>c err. Call_collector_NewSet c \<in> set (fst (New e config)) \<and>
            collector_NewSet e c = Inl err \<longrightarrow> snd (New e config) = Inl (Mask err)) \<and>
   (\<forall>c err. Call_statusresource_NewCollectorSet c \<in> set (fst (New e config)) \<and>
            statusresource_NewCollectorSet e c = Inl err \<longrightarrow> snd (New e config) = Inl (Mask err)) \<and>
   (\<forall>s. snd (New e config) = Inr s \<longrightarrow>
      (\<exists>c1 c2. Call_collector_NewSet c1 \<in> set (fst (New e config)) \<and>
               collector_NewSet e c1 = Inr (operatorCollector s) \<and>
               Call_statusresource_NewCollectorSet c2 \<in> set (fst (New e config)) \<and>
               statusresource_NewCollectorSet e c2 = Inr (statusResourceCollector s)))"
proof -
  have "New e config = (fst (New e config), snd (New e config))" by simp
  from New_result[OF this] show ?thesis by blast
qed

theorem New_all_or_nothing_witness:
  "snd (New env_set_fails (config_of viper_inCluster)) = Inl (Mask ''collector set rejected'') \<and>
   snd (New env_status_fails (config_of viper_inCluster)) =
     Inl (Mask ''status collector set rejected'') \<and>
   snd (New env_ok (config_of viper_inCluster)) =
     Inr \<lparr> svc_Version = VersionServiceHandle 5, bootOnce = False,
           operatorCollector = CollectorSetHandle 3,
           statusResourceCollector = StatusCollectorSetHandle 4 \<rparr> \<and>
   (\<exists>c1 c2. Call_collector_NewSet c1 \<in> set (fst (New env_ok (config_of viper_inCluster))) \<and>
            collector_NewSet env_ok c1 = Inr (CollectorSetHandle 3) \<and>
            Call_statusresource_NewCollectorSet c2
              \<in> set (fst (New env_ok (config_of viper_inCluster))) \<and>
            statusresource_NewCollectorSet env_ok c2 = Inr (StatusCollectorSetHandle 4))"
proof -
  let ?c1 = "\<lparr> sc_ControlPlaneResourceGroup = ''rg1'', sc_Location = ''westeurope'',
       sc_Logger = Some (MicroLogger 0), sc_K8sClient = ClientsHandle 2,
       sc_GSTenantID = ''t1'' \<rparr>"
  let ?c2 = "\<lparr> sr_Logger = Some (MicroLogger 0),
       sr_Watcher = AzureConfigs_Watch (ClientsHandle 2) '''' \<rparr>"
  let ?s = "\<lparr> svc_Version = VersionServiceHandle 5, bootOnce = False,
           operatorCollector = CollectorSetHandle 3,
           statusResourceCollector = StatusCollectorSetHandle 4 \<rparr>"
  have a: "Call_collector_NewSet ?c1 \<in> set (fst (New env_set_fails (config_of viper_inCluster))) \<and>
        collector_NewSet env_set_fails ?c1 = Inl ''collector set rejected''"
    by (simp add: New_defs fixture_defs)
  have b: "Call_statusresource_NewCollectorSet ?c2
             \<in> set (fst (New env_status_fails (config_of viper_inCluster))) \<and>
        statusresource_NewCollectorSet env_status_fails ?c2 = Inl ''status collector set rejected''"
    by (simp add: New_defs fixture_defs)
  from a b New_all_or_nothing[of env_set_fails "config_of viper_inCluster"]
    New_all_or_nothing[of env_status_fails "config_of viper_inCluster"]
  have fails: "snd (New env_set_fails (config_of viper_inCluster)) =
        Inl (Mask ''collector set rejected'') \<and>
      snd (New env_status_fails (config_of viper_inCluster)) =
        Inl (Mask ''status collector set rejected'')"
    by blast
  have h: "snd (New env_ok (config_of viper_inCluster)) = Inr ?s"
    by (simp add: New_defs fixture_defs)
  from New_all_or_nothing[of env_ok "config_of viper_inCluster"] h
  have "\<exists>c1 c2. Call_collector_NewSet c1 \<in> set (fst (New env_ok (config_of viper_inCluster))) \<and>
      collector_NewSet env_ok c1 = Inr (operatorCollector ?s) \<and>
      Call_statusresource_NewCollectorSet c2
         \<in> set (fst (New env_ok (config_of viper_inCluster))) \<and>
      statusresource_NewCollectorSet env_ok c2 = Inr (statusResourceCollector ?s)"
    by blast
  with fails h show ?thesis by simp
qed

text \<open>
  C7. The count check precedes transport construction. If the number of defined
  connection parameters is not one, \<^verbatim>\<open>New\<close> returns an invalid-configuration
  error with no call to another package. Conversely, whenever \<^verbatim>\<open>New\<close> calls
  another package at all, exactly one connection parameter is defined.
\<close>

theorem New_count_check_before_transport:
  "(Flag config = Some f \<and> Viper config = Some v \<and>
    length (filter id [GetString v (Service_Kubernetes_Address f) \<noteq> '''',
                       GetBool v (Service_Kubernetes_InCluster f),
                       GetString v (Service_Kubernetes_KubeConfigPath f) \<noteq> '''']) \<noteq> 1 \<longrightarrow>
      (\<exists>msg. New e config = ([], Inl (InvalidConfig msg)))) \<and>
   (fst (New e config) \<noteq> [] \<longrightarrow>
      (\<exists>f v. Flag config = Some f \<and> Viper config = Some v \<and>
         length (filter id [GetString v (Service_Kubernetes_Address f) \<noteq> '''',
                            GetBool v (Service_Kubernetes_InCluster f),
                            GetString v (Service_Kubernetes_KubeConfigPath f) \<noteq> '''']) = 1))"
proof (intro conjI impI)
  assume a: "Flag config = Some f \<and> Viper config = Some v \<and>
    length (filter id [GetString v (Service_Kubernetes_Address f) \<noteq> '''',
                       GetBool v (Service_Kubernetes_InCluster f),
                       GetString v (Service_Kubernetes_KubeConfigPath f) \<noteq> '''']) \<noteq> 1"
  then have "defined_count (GetString v (Service_Kubernetes_Address f))
                    (GetBool v (Service_Kubernetes_InCluster f))
                    (GetString v (Service_Kubernetes_KubeConfigPath f)) \<noteq> 1"
    unfolding defined_count_filter by linarith
  then show "\<exists>msg. New e config = ([], Inl (InvalidConfig msg))"
    using a New_invalid_or_connect[of e config] by auto
next
  assume "fst (New e config) \<noteq> []"
  then obtain l f v where h: "Flag config = Some f" "Viper config = Some v"
      "defined_count (GetString v (Service_Kubernetes_Address f))
                    (GetBool v (Service_Kubernetes_InCluster f))
                    (GetString v (Service_Kubernetes_KubeConfigPath f)) = 1"
    using New_invalid_or_connect[of e config] by auto
  from h(3) have "length (filter id [GetString v (Service_Kubernetes_Address f) \<noteq> '''',
                            GetBool v (Service_Kubernetes_InCluster f),
                            GetString v (Service_Kubernetes_KubeConfigPath f) \<noteq> '''']) = 1"
    unfolding defined_count_filter by linarith
  with h(1,2) show "\<exists>f v. Flag config = Some f \<and> Viper config = Some v \<and>
         length (filter id [GetString v (Service_Kubernetes_Address f) \<noteq> '''',
                            GetBool v (Service_Kubernetes_InCluster f),
                            GetString v (Service_Kubernetes_KubeConfigPath f) \<noteq> '''']) = 1"
    by blast
qed

theorem New_count_check_before_transport_witness:
  "length (filter id
      [GetString viper_address_and_path (Service_Kubernetes_Address flag0) \<noteq> '''',
       GetBool viper_address_and_path (Service_Kubernetes_InCluster flag0),
       GetString viper_address_and_path (Service_Kubernetes_KubeConfigPath flag0) \<noteq> '''']) \<noteq> 1 \<and>
   fst (New env_ok (config_of viper_address_and_path)) = [] \<and>
   fst (New env_ok (config_of viper_inCluster)) \<noteq> [] \<and>
   length (filter id
      [GetString viper_inCluster (Service_Kubernetes_Address flag0) \<noteq> '''',
       GetBool viper_inCluster (Service_Kubernetes_InCluster flag0),
       GetString viper_inCluster (Service_Kubernetes_KubeConfigPath flag0) \<noteq> '''']) = 1"
proof -
  have h: "Flag (config_of viper_address_and_path) = Some flag0 \<and>
     Viper (config_of viper_address_and_path) = Some viper_address_and_path \<and>
     length (filter id
      [GetString viper_address_and_path (Service_Kubernetes_Address flag0) \<noteq> '''',
       GetBool viper_address_and_path (Service_Kubernetes_InCluster flag0),
       GetString viper_address_and_path (Service_Kubernetes_KubeConfigPath flag0) \<noteq> '''']) \<noteq> 1"
    by (simp add: fixture_defs)
  have "\<exists>msg. New env_ok (config_of viper_address_and_path) = ([], Inl (InvalidConfig msg))"
    using New_count_check_before_transport
            [of "config_of viper_address_and_path" flag0 viper_address_and_path env_ok] h
    by blast
  then have a: "fst (New env_ok (config_of viper_address_and_path)) = []" by auto
  have b: "fst (New env_ok (config_of viper_inCluster)) \<noteq> []"
    by (simp add: New_defs fixture_defs)
  have c: "length (filter id
      [GetString viper_inCluster (Service_Kubernetes_Address flag0) \<noteq> '''',
       GetBool viper_inCluster (Service_Kubernetes_InCluster flag0),
       GetString viper_inCluster (Service_Kubernetes_KubeConfigPath flag0) \<noteq> '''']) = 1"
    using New_count_check_before_transport [of "config_of viper_inCluster" _ _ env_ok] b
    by (auto simp add: config_of_def)
  from h a b c show ?thesis by blast
qed

text \<open>
  C10. \<^verbatim>\<open>New\<close> requires the logger, flag and viper handles, in this order. A nil
  handle gives the invalid-configuration error naming it, whatever the identity
  fields and connection parameters are, and no other package is called.
\<close>

theorem New_handles_checked_first:
  "(Logger config = None \<longrightarrow>
      New e config = ([], Inl (InvalidConfig ''service.Config.Logger must not be empty''))) \<and>
   (Logger config \<noteq> None \<and> Flag config = None \<longrightarrow>
      New e config = ([], Inl (InvalidConfig ''service.Config.Flag must not be empty''))) \<and>
   (Logger config \<noteq> None \<and> Flag config \<noteq> None \<and> Viper config = None \<longrightarrow>
      New e config = ([], Inl (InvalidConfig ''service.Config.Viper must not be empty'')))"
  by (auto simp add: New_def split: option.splits)

theorem New_handles_checked_first_witness:
  "New env_ok ((config_of viper_none)\<lparr>Logger := None, Flag := None, Description := ''''\<rparr>) =
     ([], Inl (InvalidConfig ''service.Config.Logger must not be empty'')) \<and>
   New env_ok ((config_of viper_none)\<lparr>Flag := None, Viper := None, GitCommit := ''''\<rparr>) =
     ([], Inl (InvalidConfig ''service.Config.Flag must not be empty'')) \<and>
   New env_ok ((config_of viper_none)\<lparr>Viper := None, Source := ''''\<rparr>) =
     ([], Inl (InvalidConfig ''service.Config.Viper must not be empty''))"
  using
    New_handles_checked_first
      [of "(config_of viper_none)\<lparr>Logger := None, Flag := None, Description := ''''\<rparr>" env_ok]
    New_handles_checked_first
      [of "(config_of viper_none)\<lparr>Flag := None, Viper := None, GitCommit := ''''\<rparr>" env_ok]
    New_handles_checked_first
      [of "(config_of viper_none)\<lparr>Viper := None, Source := ''''\<rparr>" env_ok]
  by (simp add: config_of_def)

section \<open>Properties of Boot\<close>

text \<open>
  C5. \<^verbatim>\<open>Boot\<close> is idempotent. \<^verbatim>\<open>sync.Once\<close> serialises its callers, so \<open>N\<close>
  calls, concurrent or not, take effect in some order \<open>c # cs\<close> of their
  contexts. On a service returned by \<^verbatim>\<open>New\<close>, any such sequence has the effect
  of its first call alone: the guard is set and the two collector sets are
  started once, with the first caller's context. Any further call leaves the
  service and the goroutines unchanged.
\<close>

theorem Boot_idempotent:
  assumes "snd (New e config) = Inr s"
  shows "Boots (c # cs) (s, gs) =
           (s\<lparr>bootOnce := True\<rparr>,
            gs @ [Go_operatorCollector_Boot (operatorCollector s) c,
                  Go_statusResourceCollector_Boot (statusResourceCollector s) c]) \<and>
         Boots (c # cs) (s, gs) = Boot c (s, gs) \<and>
         (\<forall>c'. Boot c' (Boots (c # cs) (s, gs)) = Boots (c # cs) (s, gs))"
proof -
  have "New e config = (fst (New e config), Inr s)"
    using assms by (simp add: prod_eq_iff)
  from New_result[OF this] have "\<not> bootOnce s" by blast
  then have 1: "Boot c (s, gs) =
           (s\<lparr>bootOnce := True\<rparr>,
            gs @ [Go_operatorCollector_Boot (operatorCollector s) c,
                  Go_statusResourceCollector_Boot (statusResourceCollector s) c])"
    by (rule Boot_first)
  have 2: "Boots (c # cs) (s, gs) = Boot c (s, gs)"
    unfolding 1 by (simp add: 1 Boots_done)
  have 3: "Boot c' (Boot c (s, gs)) = Boot c (s, gs)" for c'
    unfolding 1 by (simp add: Boot_done)
  from 1 2 3 show ?thesis by simp
qed

theorem Boot_idempotent_witness:
  "snd (New env_ok (config_of viper_inCluster)) =
     Inr \<lparr> svc_Version = VersionServiceHandle 5, bootOnce = False,
           operatorCollector = CollectorSetHandle 3,
           statusResourceCollector = StatusCollectorSetHandle 4 \<rparr> \<and>
   Boots [Context 1, Context 2, Context 1]
     (\<lparr> svc_Version = VersionServiceHandle 5, bootOnce = False,
        operatorCollector = CollectorSetHandle 3,
        statusResourceCollector = StatusCollectorSetHandle 4 \<rparr>, []) =
     (\<lparr> svc_Version = VersionServiceHandle 5, bootOnce = True,
        operatorCollector = CollectorSetHandle 3,
        statusResourceCollector = StatusCollectorSetHandle 4 \<rparr>,
      [Go_operatorCollector_Boot (CollectorSetHandle 3) (Context 1),
       Go_statusResourceCollector_Boot (StatusCollectorSetHandle 4) (Context 1)])"
proof -
  have h: "snd (New env_ok (config_of viper_inCluster)) =
     Inr \<lparr> svc_Version = VersionServiceHandle 5, bootOnce = False,
           operatorCollector = CollectorSetHandle 3,
           statusResourceCollector = StatusCollectorSetHandle 4 \<rparr>"
    by (simp add: New_defs fixture_defs)
  from Boot_idempotent[OF h, of "Context 1" "[Context 2, Context 1]" "[]"] h
  show ?thesis by simp
qed

text \<open>
  C8. On a service returned by \<^verbatim>\<open>New\<close>, the first call to \<^verbatim>\<open>Boot\<close> starts
  exactly two goroutines: \<^verbatim>\<open>Boot\<close> of the operator collector set and
  \<^verbatim>\<open>Boot\<close> of the status-resource collector set, each with the caller's
  context; the two sets are the ones built by \<^verbatim>\<open>collector.NewSet\<close> and
  \<^verbatim>\<open>statusresource.NewCollectorSet\<close>. \<^verbatim>\<open>Boot\<close> has no result: the function
  returns the new state only, and the results of the two started calls are
  dropped.
\<close>

theorem Boot_starts_both_collector_sets:
  assumes "snd (New e config) = Inr s"
  shows "Boot c (s, gs) =
           (s\<lparr>bootOnce := True\<rparr>,
            gs @ [Go_operatorCollector_Boot (operatorCollector s) c,
                  Go_statusResourceCollector_Boot (statusResourceCollector s) c]) \<and>
         (\<exists>c1 c2. collector_NewSet e c1 = Inr (operatorCollector s) \<and>
                  statusresource_NewCollectorSet e c2 = Inr (statusResourceCollector s))"
proof -
  have "New e config = (fst (New e config), Inr s)"
    using assms by (simp add: prod_eq_iff)
  from New_result[OF this] have r: "\<not> bootOnce s \<and>
        (\<exists>c1 c2. Call_collector_NewSet c1 \<in> set (fst (New e config)) \<and>
               collector_NewSet e c1 = Inr (operatorCollector s) \<and>
               Call_statusresource_NewCollectorSet c2 \<in> set (fst (New e config)) \<and>
               statusresource_NewCollectorSet e c2 = Inr (statusResourceCollector s))"
    by blast
  then show ?thesis using Boot_first[of s c gs] by blast
qed

theorem Boot_starts_both_collector_sets_witness:
  "snd (New env_ok (config_of viper_inCluster)) =
     Inr \<lparr> svc_Version = VersionServiceHandle 5, bootOnce = False,
           operatorCollector = CollectorSetHandle 3,
           statusResourceCollector = StatusCollectorSetHandle 4 \<rparr> \<and>
   Boot (Context 7)
     (\<lparr> svc_Version = VersionServiceHandle 5, bootOnce = False,
        operatorCollector = CollectorSetHandle 3,
        statusResourceCollector = StatusCollectorSetHandle 4 \<rparr>, []) =
     (\<lparr> svc_Version = VersionServiceHandle 5, bootOnce = True,
        operatorCollector = CollectorSetHandle 3,
        statusResourceCollector = StatusCollectorSetHandle 4 \<rparr>,
      [Go_operatorCollector_Boot (CollectorSetHandle 3) (Context 7),
       Go_statusResourceCollector_Boot (StatusCollectorSetHandle 4) (Context 7)])"
proof -
  have h: "snd (New env_ok (config_of viper_inCluster)) =
     Inr \<lparr> svc_Version = VersionServiceHandle 5, bootOnce = False,
           operatorCollector = CollectorSetHandle 3,
           statusResourceCollector = StatusCollectorSetHandle 4 \<rparr>"
    by (simp add: New_defs fixture_defs)
  from Boot_starts_both_collector_sets[OF h, of "Context 7" "[]"] h
  show ?thesis by simp
qed

end
